theory Spec2Isabelle
  imports Main "HOL-Library.Word" "HOL-Library.Sublist"
begin

unbundle bit_operations_syntax

section \<open>aco2gpl: a Photoshop palette (.aco) to GIMP palette (.gpl) converter\<close>

text \<open>
  A shallow embedding of \<^verbatim>\<open>aco2gpl.c\<close>. Every C function of the file is one HOL
  function of the same name that takes the state of the process and returns it updated.
\<close>

subsection \<open>The process state\<close>

type_synonym byte = "8 word"

text \<open>
  The state a run can observe or change:
  \<^item> \<open>stdin\<close>: the bytes of standard input not read yet;
  \<^item> \<open>stdout\<close>, \<open>stderr\<close>: the text written so far;
  \<^item> \<open>heap\<close>: whether there is memory for each allocation request still to come, in
    order (\<open>False\<close>: \<^verbatim>\<open>malloc\<close> returns NULL); once the list is used up there is memory
    for every request of a size that can be served at all;
  \<^item> \<open>stale\<close>: the byte that \<^verbatim>\<open>buf[1]\<close> of \<^verbatim>\<open>readword\<close> holds when \<^verbatim>\<open>fread\<close> stores one
    byte only (the array is not initialised, so C fixes no value for it);
  \<^item> \<open>nulltext\<close>: what \<^verbatim>\<open>printf\<close> writes for a null pointer under \<^verbatim>\<open>%s\<close> (C leaves the
    call undefined; the GNU C library writes \<^verbatim>\<open>(null)\<close>).
\<close>

record world =
  stdin :: "byte list"
  stdout :: string
  stderr :: string
  heap :: "bool list"
  stale :: byte
  nulltext :: string

text \<open>
  A call returns a value, or ends the process through \<^verbatim>\<open>exit\<close> with a status, or reads
  memory that was never written (\<open>Undefined\<close>: C gives the run no meaning from there).
\<close>

datatype 'a res = Ret 'a world | Exit int world | Undefined world

fun bind :: "'a res \<Rightarrow> ('a \<Rightarrow> world \<Rightarrow> 'b res) \<Rightarrow> 'b res" where
  "bind (Ret x w) f = f x w"
| "bind (Exit st w) f = Exit st w"
| "bind (Undefined w) f = Undefined w"

definition eprint :: "string \<Rightarrow> world \<Rightarrow> world" where
  \<comment> \<open>\<^verbatim>\<open>fprintf(stderr, ...)\<close> with the text already formatted\<close>
  "eprint s w = w\<lparr>stderr := stderr w @ s\<rparr>"

definition print :: "string \<Rightarrow> world \<Rightarrow> world" where
  \<comment> \<open>\<^verbatim>\<open>printf(...)\<close> with the text already formatted\<close>
  "print s w = w\<lparr>stdout := stdout w @ s\<rparr>"

subsection \<open>Formatting\<close>

definition digit :: "nat \<Rightarrow> char" where
  "digit n = ''0123456789'' ! n"

function dec :: "nat \<Rightarrow> string" where
  "dec n = (if n < 10 then [digit n] else dec (n div 10) @ [digit (n mod 10)])"
  by pat_completeness auto
termination
  by (relation "measure (\<lambda>n. n)") auto

declare dec.simps [simp del]

definition fmt_d :: "int \<Rightarrow> string" where
  \<comment> \<open>the conversion \<^verbatim>\<open>%d\<close>\<close>
  "fmt_d i = (if i < 0 then CHR ''-'' # dec (nat (- i)) else dec (nat i))"

definition fmt_s :: "world \<Rightarrow> string option \<Rightarrow> string" where
  \<comment> \<open>the conversion \<^verbatim>\<open>%s\<close>; \<open>None\<close> is the null pointer\<close>
  "fmt_s w p = (case p of None \<Rightarrow> nulltext w | Some s \<Rightarrow> s)"

subsection \<open>The palette in memory\<close>

text \<open>\<^verbatim>\<open>struct acoentry\<close>; \<open>name\<close> is \<open>None\<close> for the null pointer.\<close>

record acoentry =
  r :: byte
  g :: byte
  b :: byte
  name :: "string option"

text \<open>
  \<^verbatim>\<open>struct aco\<close>. The array \<open>color\<close> comes from \<^verbatim>\<open>malloc\<close>, which does not initialise it:
  a slot is \<open>None\<close> until an entry is stored there.
\<close>

record aco =
  ver :: int
  len :: int
  color :: "acoentry option list"

subsection \<open>Allocation\<close>

text \<open>
  Sizes are values of \<^verbatim>\<open>size_t\<close>, 64 bits wide in the LP64 data model taken here, where
  \<^verbatim>\<open>sizeof(struct aco)\<close> (two ints and a pointer) and \<^verbatim>\<open>sizeof(struct acoentry)\<close> (three
  bytes, padding and a pointer) are both 16.
\<close>

type_synonym size_t = "64 word"

definition sizeof_aco :: size_t where
  "sizeof_aco = 16"

definition sizeof_acoentry :: size_t where
  "sizeof_acoentry = 16"

text \<open>
  \<^verbatim>\<open>malloc\<close>. No request for more than \<^verbatim>\<open>PTRDIFF_MAX\<close> bytes can be served, whatever the
  state of the memory; for every other request the next entry of \<open>heap\<close> decides. The
  result is whether the pointer returned is other than NULL.
\<close>

definition too_large :: "size_t \<Rightarrow> bool" where
  "too_large n \<longleftrightarrow> 0x7FFFFFFFFFFFFFFF < n"

definition malloc :: "size_t \<Rightarrow> world \<Rightarrow> bool \<times> world" where
  "malloc n w =
     (case heap w of
        [] \<Rightarrow> (\<not> too_large n, w)
      | ok # h \<Rightarrow> (ok \<and> \<not> too_large n, w\<lparr>heap := h\<rparr>))"

definition acomalloc :: "size_t \<Rightarrow> world \<Rightarrow> unit res" where
  "acomalloc n w =
     (case malloc n w of (ptr, w') \<Rightarrow>
        if \<not> ptr then Exit 1 (eprint ''Out of memory!\<newline>'' w')
        else Ret () w')"

definition cstring :: "string \<Rightarrow> string" where
  \<comment> \<open>the C string that starts a buffer: its characters before the first NUL\<close>
  "cstring buf = takeWhile (\<lambda>c. c \<noteq> CHR 0x00) buf"

definition strdup :: "string \<Rightarrow> world \<Rightarrow> string option \<times> world" where
  \<comment> \<open>a copy of the C string in \<open>buf\<close>, in memory from \<^verbatim>\<open>malloc\<close> for its characters and
      the closing NUL, or the null pointer when there is none\<close>
  "strdup buf w =
     (case malloc (word_of_nat (length (cstring buf) + 1)) w of (ptr, w') \<Rightarrow>
        (if ptr then Some (cstring buf) else None, w'))"

subsection \<open>Reading words\<close>

definition word_of_buf :: "byte \<Rightarrow> byte \<Rightarrow> int" where
  \<comment> \<open>\<^verbatim>\<open>w = buf[1] | buf[0] << 8; return w;\<close> with \<open>w\<close> an \<^verbatim>\<open>unsigned int\<close>\<close>
  "word_of_buf b0 b1 = uint ((ucast b1 :: 32 word) OR push_bit 8 (ucast b0 :: 32 word))"

definition readword :: "world \<Rightarrow> int \<times> world" where
  \<comment> \<open>\<^verbatim>\<open>fread(buf, 1, 2, fp)\<close> stores the bytes that are left, two at most, and returns
      how many it stored; only the count 0 is taken for the end of the file\<close>
  "readword w =
     (case stdin w of
        [] \<Rightarrow> (- 1, w)
      | [b0] \<Rightarrow> (word_of_buf b0 (stale w), w\<lparr>stdin := []\<rparr>)
      | b0 # b1 # rest \<Rightarrow> (word_of_buf b0 b1, w\<lparr>stdin := rest\<rparr>))"

definition mustreadword :: "world \<Rightarrow> int res" where
  "mustreadword w =
     (case readword w of (v, w') \<Rightarrow>
        if v = - 1 then Exit 1 (eprint ''Unexpected end of file!\<newline>'' w')
        else Ret v w')"

subsection \<open>One colour record\<close>

text \<open>The loop \<^verbatim>\<open>for (j = 0; j < n; j++) mustreadword(fp);\<close> with its counter.\<close>

function skipwords :: "int \<Rightarrow> int \<Rightarrow> world \<Rightarrow> unit res" where
  "skipwords j n w =
     (if j < n then bind (mustreadword w) (\<lambda>_ w'. skipwords (j + 1) n w')
      else Ret () w)"
  by pat_completeness auto
termination
  by (relation "measure (\<lambda>(j, n, w). nat (n - j))") auto

declare skipwords.simps [simp del]

text \<open>
  The loop \<^verbatim>\<open>while (namelen > 0)\<close> of \<^verbatim>\<open>convertcolor\<close>. \<open>buf\<close> holds the characters
  stored through \<^verbatim>\<open>*name++\<close> so far and \<open>buflen\<close> is the room that is left.
\<close>

function readname :: "int \<Rightarrow> string \<Rightarrow> int \<Rightarrow> world \<Rightarrow> string res" where
  "readname namelen buf buflen w =
     (if namelen > 0 then
        bind (mustreadword w) (\<lambda>c w'.
          let c = (if c > 0xff then 32 else c) in
          if buflen > 1 then readname (namelen - 1) (buf @ [char_of c]) (buflen - 1) w'
          else readname (namelen - 1) buf buflen w')
      else Ret buf w)"
  by pat_completeness auto
termination
  by (relation "measure (\<lambda>(namelen, buf, buflen, w). nat namelen)") auto

declare readname.simps [simp del]

text \<open>
  What \<^verbatim>\<open>convertcolor\<close> hands back: \<open>Skipped\<close> for the return value 1, and for the
  return value 0 the three components stored through the pointers together with the
  caller's name buffer, \<open>None\<close> when it was left as it was (never written) and
  \<open>Some\<close> of its bytes up to and with the closing NUL otherwise.
\<close>

datatype conv = Skipped | Converted int int int "string option"

text \<open>The words read are never negative, so C's truncating \<^verbatim>\<open>/\<close> is \<open>div\<close> here.\<close>

definition convertcolor :: "int \<Rightarrow> int \<Rightarrow> world \<Rightarrow> conv res" where
  "convertcolor version buflen w =
     bind (mustreadword w) (\<lambda>cspace w.
       if cspace \<noteq> 0 then
         bind (skipwords 0 4 w) (\<lambda>_ w.
         bind (if version = 2 then
                 bind (mustreadword w) (\<lambda>_ w.
                 bind (mustreadword w) (\<lambda>namelen w.
                 skipwords 0 namelen w))
               else Ret () w) (\<lambda>_ w.
         Ret Skipped
           (eprint (''Non RGB color (colorspace '' @ fmt_d cspace @ '') skipped\<newline>'') w)))
       else
         bind (mustreadword w) (\<lambda>x w.
         bind (mustreadword w) (\<lambda>y w.
         bind (mustreadword w) (\<lambda>z w.
         bind (mustreadword w) (\<lambda>_ w.
         if version = 1 then Ret (Converted (x div 256) (y div 256) (z div 256) None) w
         else
           bind (mustreadword w) (\<lambda>_ w.
           bind (mustreadword w) (\<lambda>namelen w.
           bind (readname (namelen - 1) [] buflen w) (\<lambda>buf w.
           bind (mustreadword w) (\<lambda>_ w.
           Ret (Converted (x div 256) (y div 256) (z div 256)
                  (Some (buf @ [CHR 0x00]))) w)))))))))"

subsection \<open>One record set\<close>

text \<open>
  The loop \<^verbatim>\<open>for (j = 0; j < colors; j++)\<close> of \<^verbatim>\<open>readaco\<close>. The array has \<open>colors\<close>
  slots and \<open>j\<close> stays below \<open>colors\<close>, so the store is always in range. The four
  assignments to the fields of slot \<open>j\<close> are one store of the whole entry.
\<close>

function readaco_loop :: "int \<Rightarrow> int \<Rightarrow> int \<Rightarrow> aco \<Rightarrow> world \<Rightarrow> aco res" where
  "readaco_loop version colors j a w =
     (if j < colors then
        bind (convertcolor version 256 w) (\<lambda>c w.
          case c of
            Skipped \<Rightarrow> readaco_loop version colors (j + 1) a w
          | Converted x y z buf \<Rightarrow>
              if version = 2 then
                (case buf of
                   None \<Rightarrow> Undefined w
                 | Some s \<Rightarrow>
                     (case strdup s w of (p, w) \<Rightarrow>
                        readaco_loop version colors (j + 1)
                          (a\<lparr>color := (color a)[nat j := Some \<lparr>r = word_of_int x,
                             g = word_of_int y, b = word_of_int z, name = p\<rparr>]\<rparr>) w))
              else
                readaco_loop version colors (j + 1)
                  (a\<lparr>color := (color a)[nat j := Some \<lparr>r = word_of_int x,
                     g = word_of_int y, b = word_of_int z, name = None\<rparr>]\<rparr>) w)
      else Ret a w)"
  by pat_completeness auto
termination
  by (relation "measure (\<lambda>(version, colors, j, a, w). nat (colors - j))") auto

declare readaco_loop.simps [simp del]

text \<open>
  \<^verbatim>\<open>readaco\<close>. The second request is \<^verbatim>\<open>sizeof(struct acoentry)*aco->len\<close>: the length, an
  \<^verbatim>\<open>int\<close>, is converted to \<^verbatim>\<open>size_t\<close> for the product, so the count \<open>-1\<close> asks for
  \<open>2 ^ 64 - 16\<close> bytes. The array of a palette with a count that is not positive has
  no slot that the program ever touches, and none in the model.
\<close>

definition readaco :: "world \<Rightarrow> aco option res" where
  "readaco w =
     (case readword w of (version, w) \<Rightarrow>
        if version = - 1 then Ret None w
        else
          bind (let w = eprint ''reading ACO stream version:'' w in
                if version = 1 then Ret () (eprint '' 1 (photoshop < 7.0)\<newline>'' w)
                else if version = 2 then Ret () (eprint '' 2 (photoshop >= 7.0)\<newline>'' w)
                else Exit 1 (eprint (''Unknown ACO file version '' @ fmt_d version @
                                     ''. Exiting...\<newline>'') w)) (\<lambda>_ w.
          case readword w of (colors, w) \<Rightarrow>
            let w = eprint (fmt_d colors @ '' colors in this file\<newline>'') w in
            bind (acomalloc sizeof_aco w) (\<lambda>_ w.
            bind (acomalloc (sizeof_acoentry * word_of_int colors) w) (\<lambda>_ w.
            bind (readaco_loop version colors 0
                    \<lparr>ver = version, len = colors, color = replicate (nat colors) None\<rparr> w)
              (\<lambda>a w. Ret (Some a) w)))))"

subsection \<open>Writing the GIMP palette\<close>

definition cols :: int where
  "cols = 4"

definition header :: string where
  "header = ''GIMP Palette\<newline>Name: Untitled\<newline>Columns: 16\<newline>#''"

definition slot :: "aco \<Rightarrow> int \<Rightarrow> acoentry option" where
  \<comment> \<open>\<^verbatim>\<open>aco->color[k]\<close>: the entry stored there, \<open>None\<close> where nothing was stored
      or \<open>k\<close> is outside the array\<close>
  "slot a k = (if 0 \<le> k \<and> nat k < length (color a) then color a ! nat k else None)"

definition colorline :: "world \<Rightarrow> acoentry \<Rightarrow> string" where
  \<comment> \<open>the format \<^verbatim>\<open>"\n%d %d %d %s"\<close>\<close>
  "colorline w e =
     ''\<newline>'' @ fmt_d (uint (r e)) @ '' '' @ fmt_d (uint (g e)) @ '' '' @
     fmt_d (uint (b e)) @ '' '' @ fmt_s w (name e)"

text \<open>The inner loop \<^verbatim>\<open>for (i = 0; i < cols; i++)\<close> with its \<^verbatim>\<open>break\<close>.\<close>

function gengpl_row :: "aco \<Rightarrow> int \<Rightarrow> int \<Rightarrow> world \<Rightarrow> unit res" where
  "gengpl_row a j i w =
     (if i < cols then
        if j + i = len a then Ret () w
        else
          (case slot a (j + i) of
             None \<Rightarrow> Undefined w
           | Some e \<Rightarrow> gengpl_row a j (i + 1) (print (colorline w e) w))
      else Ret () w)"
  by pat_completeness auto
termination
  by (relation "measure (\<lambda>(a, j, i, w). nat (cols - i))") auto

declare gengpl_row.simps [simp del]

text \<open>The outer loop \<^verbatim>\<open>for (j = 0; j < aco->len; j += cols)\<close>.\<close>

function gengpl_rows :: "aco \<Rightarrow> int \<Rightarrow> world \<Rightarrow> unit res" where
  "gengpl_rows a j w =
     (if j < len a then bind (gengpl_row a j 0 w) (\<lambda>_ w'. gengpl_rows a (j + cols) w')
      else Ret () w)"
  by pat_completeness auto
termination
  by (relation "measure (\<lambda>(a, j, w). nat (len a - j))") (auto simp: cols_def)

declare gengpl_rows.simps [simp del]

definition gengpl :: "aco \<Rightarrow> world \<Rightarrow> unit res" where
  "gengpl a w = gengpl_rows a 0 (print header w)"

subsection \<open>The program\<close>

definition main :: "world \<Rightarrow> int res" where
  "main w =
     bind (readaco w) (\<lambda>aco1 w.
     bind (readaco w) (\<lambda>aco2 w.
       let w = eprint ''Generating GPL...\<newline>'' w in
       bind (case aco2 of
               Some a \<Rightarrow> gengpl a w
             | None \<Rightarrow>
                 (case aco1 of
                    Some a \<Rightarrow> gengpl a w
                  | None \<Rightarrow> Ret () (eprint ''No data!'' w)))
         (\<lambda>_ w. Ret 0 (eprint ''Done.\<newline>'' w))))"

subsection \<open>Input files and the emitter as the specification words it\<close>

text \<open>
  The stream is made of 16-bit words, the high byte first. \<open>be16\<close> writes one word
  and \<open>be16s\<close> a sequence of them.
\<close>

definition be16 :: "16 word \<Rightarrow> byte list" where
  "be16 x = [ucast (drop_bit 8 x), ucast x]"

definition be16s :: "16 word list \<Rightarrow> byte list" where
  "be16s xs = concat (map be16 xs)"

definition name_char :: "16 word \<Rightarrow> char" where
  \<comment> \<open>a unit of a name as one character: a space for every unit above 255\<close>
  "name_char x = (if uint x > 255 then CHR '' '' else char_of (uint x))"

text \<open>
  An RGB colour record as it lies in a file: the three components, the fourth
  component slot, and for version 2 the word before the name, the units of the name and
  the word that closes it. \<open>rgb_record\<close> writes the discriminator 0 in front and
  the length word, one more than the number of units, before the units.
\<close>

datatype rgbrec = RgbRec (red: "16 word") (green: "16 word") (blue: "16 word")
  (fourth: "16 word") (extra: "16 word") (units: "16 word list") (closing: "16 word")

definition length_word :: "rgbrec \<Rightarrow> 16 word" where
  "length_word q = word_of_nat (length (units q) + 1)"

definition rgb_record :: "int \<Rightarrow> rgbrec \<Rightarrow> byte list" where
  "rgb_record version q =
     be16s ([0, red q, green q, blue q, fourth q] @
            (if version = 2 then [extra q, length_word q] @ units q @ [closing q] else []))"

definition rgb_of :: "acoentry option \<Rightarrow> (int \<times> int \<times> int) option" where
  "rgb_of s = map_option (\<lambda>e. (uint (r e), uint (g e), uint (b e))) s"

definition rgb_expected :: "rgbrec \<Rightarrow> (int \<times> int \<times> int) option" where
  "rgb_expected q = Some (uint (red q) div 256, uint (green q) div 256, uint (blue q) div 256)"

text \<open>
  The emitter of the specification: after the header, a single loop that writes one
  line for each entry, from slot \<open>k\<close> up to the slot before \<open>hi\<close>.
\<close>

function emit_range :: "aco \<Rightarrow> int \<Rightarrow> int \<Rightarrow> world \<Rightarrow> unit res" where
  "emit_range a k hi w =
     (if k < hi then
        (case slot a k of
           None \<Rightarrow> Undefined w
         | Some e \<Rightarrow> emit_range a (k + 1) hi (print (colorline w e) w))
      else Ret () w)"
  by pat_completeness auto
termination
  by (relation "measure (\<lambda>(a, k, hi, w). nat (hi - k))") auto

declare emit_range.simps [simp del]

definition gengpl_seq :: "aco \<Rightarrow> world \<Rightarrow> unit res" where
  "gengpl_seq a w = emit_range a 0 (len a) (print header w)"

text \<open>
  A fresh process on the input \<open>bs\<close>: nothing written yet, every allocation served,
  and the C library of GNU for the text of a null pointer.
\<close>

definition start :: "byte list \<Rightarrow> world" where
  "start bs = \<lparr>stdin = bs, stdout = [], stderr = [], heap = [], stale = 0,
                nulltext = ''(null)''\<rparr>"

text \<open>
  The three messages that come before an \<^verbatim>\<open>exit(1)\<close> in the source, as the last text
  on standard error, and the outcomes that are either no exit or an exit with status 1
  behind one of them.
\<close>

definition fatal_text :: "string \<Rightarrow> bool" where
  "fatal_text s \<longleftrightarrow>
     suffix ''Out of memory!\<newline>'' s \<or>
     suffix ''Unexpected end of file!\<newline>'' s \<or>
     (\<exists>v. v \<noteq> 1 \<and> v \<noteq> 2 \<and>
          suffix (''Unknown ACO file version '' @ fmt_d v @ ''. Exiting...\<newline>'') s)"

definition fatal_exit :: "'a res \<Rightarrow> bool" where
  "fatal_exit m = (case m of Exit st w \<Rightarrow> st = 1 \<and> fatal_text (stderr w) | _ \<Rightarrow> True)"

text \<open>
  The conditions that end a run with status 1, each with the diagnostic written before
  \<^verbatim>\<open>exit(1)\<close>.
\<close>

datatype fatal = OutOfMemory | UnexpectedEnd | UnknownVersion int

definition diagnostic :: "fatal \<Rightarrow> string" where
  "diagnostic f =
     (case f of
        OutOfMemory \<Rightarrow> ''Out of memory!\<newline>''
      | UnexpectedEnd \<Rightarrow> ''Unexpected end of file!\<newline>''
      | UnknownVersion v \<Rightarrow> ''Unknown ACO file version '' @ fmt_d v @ ''. Exiting...\<newline>'')"

text \<open>
  \<open>exits_after f m\<close>: the outcome \<open>m\<close> is an exit with status 1 and the diagnostic of \<open>f\<close>
  is the last text on standard error. \<open>no_exit m\<close>: \<open>m\<close> is no exit at all.
\<close>

definition exits_after :: "fatal \<Rightarrow> 'a res \<Rightarrow> bool" where
  "exits_after f m =
     (case m of Exit st w \<Rightarrow> st = 1 \<and> suffix (diagnostic f) (stderr w) | _ \<Rightarrow> False)"







section \<open>Properties\<close>

subsection \<open>The header of a record set\<close>

lemma readaco_alt:
  "readaco w =
     (case readword w of (version, w) \<Rightarrow>
        if version = - 1 then Ret None w
        else
          let w = eprint ''reading ACO stream version:'' w in
          if version = 1 \<or> version = 2 then
            let w = eprint (if version = 1 then '' 1 (photoshop < 7.0)\<newline>''
                            else '' 2 (photoshop >= 7.0)\<newline>'') w in
            (case readword w of (colors, w) \<Rightarrow>
               let w = eprint (fmt_d colors @ '' colors in this file\<newline>'') w in
               bind (acomalloc sizeof_aco w) (\<lambda>_ w.
               bind (acomalloc (sizeof_acoentry * word_of_int colors) w) (\<lambda>_ w.
               bind (readaco_loop version colors 0
                       \<lparr>ver = version, len = colors, color = replicate (nat colors) None\<rparr> w)
                 (\<lambda>a w. Ret (Some a) w))))
          else
            Exit 1 (eprint (''Unknown ACO file version '' @ fmt_d version @
                            ''. Exiting...\<newline>'') w))"
  by (simp add: readaco_def Let_def split: prod.splits)


subsection \<open>Words\<close>

lemma uint_byte_bounds: "0 \<le> uint (x :: byte) \<and> uint x < 256"
  using uint_bounded [of x] by simp

lemma uint_word16_bounds: "0 \<le> uint (x :: 16 word) \<and> uint x < 65536"
  using uint_bounded [of x] by simp

lemma div256_small: "0 \<le> (u::int) \<Longrightarrow> u < 65536 \<Longrightarrow> u div 256 mod 256 = u div 256"
  by simp

lemma uint_low_byte: "uint (ucast (x :: 16 word) :: byte) = uint x mod 256"
  by (simp add: unsigned_ucast_eq take_bit_eq_mod)

lemma uint_high_byte: "uint (ucast (drop_bit 8 (x :: 16 word)) :: byte) = uint x div 256"
proof -
  have "uint (ucast (drop_bit 8 x) :: byte) = (uint x div 256) mod 256"
    by (simp add: unsigned_ucast_eq drop_bit_eq_div take_bit_eq_mod uint_div)
  also have "\<dots> = uint x div 256"
    using uint_word16_bounds [of x] by (intro div256_small) blast+
  finally show ?thesis .
qed

lemma word_of_buf_eq: "word_of_buf b0 b1 = 256 * uint b0 + uint b1"
proof -
  have "(ucast b1 :: 32 word) OR push_bit 8 (ucast b0) = word_cat b0 b1"
    by (simp add: word_cat_eq_push_bit_or or.commute)
  then have "word_of_buf b0 b1 = uint (word_cat b0 b1 :: 32 word)"
    by (simp add: word_of_buf_def)
  also have "\<dots> = take_bit 32 (concat_bit 8 (uint b1) (uint b0))"
    by (simp add: word_cat_eq' uint_word_of_int_eq)
  also have "concat_bit 8 (uint b1) (uint b0) = 256 * uint b0 + uint b1"
    using uint_byte_bounds [of b1]
    by (simp add: concat_bit_eq take_bit_eq_mod push_bit_eq_mult)
  also have "take_bit 32 (256 * uint b0 + uint b1) = 256 * uint b0 + uint b1"
    using uint_byte_bounds [of b0] uint_byte_bounds [of b1]
    by (simp add: take_bit_eq_mod)
  finally show ?thesis .
qed

lemma word_of_buf_range: "0 \<le> word_of_buf b0 b1 \<and> word_of_buf b0 b1 \<le> 65535"
  using uint_byte_bounds [of b0] uint_byte_bounds [of b1]
  by (simp add: word_of_buf_eq)

lemma word_of_buf_not_eof: "word_of_buf b0 b1 \<noteq> - 1"
  using word_of_buf_range [of b0 b1] by linarith

lemma word_of_buf_be16: "word_of_buf (ucast (drop_bit 8 x)) (ucast x) = uint (x :: 16 word)"
  unfolding word_of_buf_eq uint_high_byte unfolding uint_low_byte by simp

lemma readword_be16:
  "stdin w = be16 x @ rest \<Longrightarrow> readword w = (uint x, w\<lparr>stdin := rest\<rparr>)"
  by (simp add: readword_def be16_def word_of_buf_be16)

lemma uint_not_eof: "uint (x :: 16 word) \<noteq> - 1"
proof -
  have "0 \<le> uint x" using uint_word16_bounds [of x] by blast
  then show ?thesis by linarith
qed

lemma mustreadword_be16:
  "stdin w = be16 x @ rest \<Longrightarrow> mustreadword w = Ret (uint x) (w\<lparr>stdin := rest\<rparr>)"
  by (simp add: mustreadword_def readword_be16 uint_not_eof)

lemma be16s_Nil [simp]: "be16s [] = []"
  by (simp add: be16s_def)

lemma be16s_Cons [simp]: "be16s (x # xs) = be16 x @ be16s xs"
  by (simp add: be16s_def)

lemma be16s_append [simp]: "be16s (xs @ ys) = be16s xs @ be16s ys"
  by (simp add: be16s_def)

subsection \<open>Reading encoded words and records\<close>

lemma char_of_32: "char_of (32::int) = CHR '' ''"
  by code_simp

lemma skipwords_done: "\<not> j < n \<Longrightarrow> skipwords j n w = Ret () w"
  by (simp add: skipwords.simps [of j n w])

lemma skipwords_step:
  "j < n \<Longrightarrow> skipwords j n w = bind (mustreadword w) (\<lambda>_ w'. skipwords (j + 1) n w')"
  by (simp add: skipwords.simps [of j n w])

lemma readname_done: "\<not> 0 < namelen \<Longrightarrow> readname namelen buf buflen w = Ret buf w"
  by (simp add: readname.simps [of namelen buf buflen w])

lemma readname_step:
  "0 < namelen \<Longrightarrow> readname namelen buf buflen w =
     bind (mustreadword w) (\<lambda>c w'.
       if buflen > 1
       then readname (namelen - 1) (buf @ [char_of (if c > 255 then 32 else c)]) (buflen - 1) w'
       else readname (namelen - 1) buf buflen w')"
  by (simp add: readname.simps [of namelen buf buflen w] Let_def)

lemma skipwords_be16s:
  "stdin w = be16s xs @ rest \<Longrightarrow> n = j + int (length xs) \<Longrightarrow>
   skipwords j n w = Ret () (w\<lparr>stdin := rest\<rparr>)"
proof (induction xs arbitrary: j w)
  case Nil
  then show ?case by (simp add: skipwords_done)
next
  case (Cons x xs)
  from Cons.prems have rd: "mustreadword w = Ret (uint x) (w\<lparr>stdin := be16s xs @ rest\<rparr>)"
    by (simp add: mustreadword_be16)
  have "skipwords (j + 1) n (w\<lparr>stdin := be16s xs @ rest\<rparr>) = Ret () (w\<lparr>stdin := rest\<rparr>)"
    using Cons.IH [of "w\<lparr>stdin := be16s xs @ rest\<rparr>" "j + 1"] Cons.prems by simp
  with rd Cons.prems show ?case
    by (simp add: skipwords_step)
qed

lemma readname_be16s:
  "stdin w = be16s xs @ rest \<Longrightarrow> namelen = int (length xs) \<Longrightarrow>
   readname namelen buf buflen w =
     Ret (buf @ take (nat (buflen - 1)) (map name_char xs)) (w\<lparr>stdin := rest\<rparr>)"
proof (induction xs arbitrary: namelen buf buflen w)
  case Nil
  then show ?case by (simp add: readname_done)
next
  case (Cons x xs)
  let ?w' = "w\<lparr>stdin := be16s xs @ rest\<rparr>"
  from Cons.prems have rd: "mustreadword w = Ret (uint x) ?w'"
    by (simp add: mustreadword_be16)
  have ch: "char_of (if 255 < uint x then 32 else uint x) = name_char x"
    by (simp add: name_char_def char_of_32)
  have ih: "readname (namelen - 1) b l ?w' =
      Ret (b @ take (nat (l - 1)) (map name_char xs)) (w\<lparr>stdin := rest\<rparr>)" for b l
    using Cons.IH [of ?w' "namelen - 1" b l] Cons.prems by simp
  have pos: "0 < namelen" using Cons.prems by simp
  show ?case
  proof (cases "buflen > 1")
    case True
    then have "nat (buflen - 1) = Suc (nat (buflen - 1 - 1))"
      by linarith
    then have "take (nat (buflen - 1)) (map name_char (x # xs)) =
               name_char x # take (nat (buflen - 1 - 1)) (map name_char xs)"
      by simp
    with True rd ih ch show ?thesis
      by (simp add: readname_step [OF pos])
  next
    case False
    with rd ih show ?thesis
      by (simp add: readname_step [OF pos])
  qed
qed


lemma mustreadword_upd:
  "mustreadword (w\<lparr>stdin := be16 x @ rest\<rparr>) = Ret (uint x) (w\<lparr>stdin := rest\<rparr>)"
  using mustreadword_be16 [of "w\<lparr>stdin := be16 x @ rest\<rparr>" x rest] by simp

lemma skipwords_upd:
  "n = j + int (length xs) \<Longrightarrow>
   skipwords j n (w\<lparr>stdin := be16s xs @ rest\<rparr>) = Ret () (w\<lparr>stdin := rest\<rparr>)"
  using skipwords_be16s [of "w\<lparr>stdin := be16s xs @ rest\<rparr>" xs rest n j] by simp

lemma readname_upd:
  "namelen = int (length xs) \<Longrightarrow>
   readname namelen buf buflen (w\<lparr>stdin := be16s xs @ rest\<rparr>) =
     Ret (buf @ take (nat (buflen - 1)) (map name_char xs)) (w\<lparr>stdin := rest\<rparr>)"
  using readname_be16s [of "w\<lparr>stdin := be16s xs @ rest\<rparr>" xs rest namelen buf buflen]
  by simp


lemma convertcolor_rgb1:
  "convertcolor 1 buflen (w\<lparr>stdin := be16s [0, x, y, z, a] @ rest\<rparr>) =
     Ret (Converted (uint x div 256) (uint y div 256) (uint z div 256) None)
         (w\<lparr>stdin := rest\<rparr>)"
  by (simp add: convertcolor_def mustreadword_upd)

lemma convertcolor_rgb2:
  assumes "uint l = int (length us) + 1"
  shows "convertcolor 2 buflen
           (w\<lparr>stdin := be16s ([0, x, y, z, a, p, l] @ us @ [t]) @ rest\<rparr>) =
         Ret (Converted (uint x div 256) (uint y div 256) (uint z div 256)
                (Some (take (nat (buflen - 1)) (map name_char us) @ [CHR 0x00])))
             (w\<lparr>stdin := rest\<rparr>)"
  using assms by (simp add: convertcolor_def mustreadword_upd readname_upd)



subsection \<open>The loop over the records of a set\<close>

lemma readaco_loop_done: "\<not> j < colors \<Longrightarrow> readaco_loop version colors j a w = Ret a w"
  by (simp add: readaco_loop.simps [of version colors j a w])

lemma readaco_loop_step:
  "j < colors \<Longrightarrow> readaco_loop version colors j a w =
     bind (convertcolor version 256 w) (\<lambda>c w.
       case c of
         Skipped \<Rightarrow> readaco_loop version colors (j + 1) a w
       | Converted x y z buf \<Rightarrow>
           if version = 2 then
             (case buf of
                None \<Rightarrow> Undefined w
              | Some s \<Rightarrow>
                  (case strdup s w of (p, w) \<Rightarrow>
                     readaco_loop version colors (j + 1)
                       (a\<lparr>color := (color a)[nat j := Some \<lparr>r = word_of_int x,
                          g = word_of_int y, b = word_of_int z, name = p\<rparr>]\<rparr>) w))
           else
             readaco_loop version colors (j + 1)
               (a\<lparr>color := (color a)[nat j := Some \<lparr>r = word_of_int x,
                  g = word_of_int y, b = word_of_int z, name = None\<rparr>]\<rparr>) w)"
  by (simp add: readaco_loop.simps [of version colors j a w])

lemma uint_byte_of_div256:
  "uint (word_of_int (uint (x :: 16 word) div 256) :: byte) = uint x div 256"
proof -
  have "uint (word_of_int (uint x div 256) :: byte) = uint x div 256 mod 256"
    by (simp add: uint_word_of_int_eq take_bit_eq_mod)
  also have "\<dots> = uint x div 256"
    using uint_word16_bounds [of x] by (intro div256_small) blast+
  finally show ?thesis .
qed

lemma strdup_fields:
  "stdin (snd (strdup s w)) = stdin w \<and> stdout (snd (strdup s w)) = stdout w \<and>
   stderr (snd (strdup s w)) = stderr w"
  by (simp add: strdup_def malloc_def split: list.splits)


lemma rgb_of_stored:
  "rgb_of (Some \<lparr>r = word_of_int (uint (red q) div 256), g = word_of_int (uint (green q) div 256),
                  b = word_of_int (uint (blue q) div 256), name = p\<rparr>) = rgb_expected q"
  by (simp add: rgb_of_def rgb_expected_def uint_byte_of_div256)

lemma stored_slot:
  assumes "n < length xs"
    and "take (Suc n) ys = take (Suc n) (xs[n := v])"
    and "length ys = length xs"
  shows "take n ys = take n xs \<and> drop n ys = v # drop (Suc n) ys"
proof -
  have "take n (take (Suc n) ys) = take n (take (Suc n) (xs[n := v]))"
    using assms(2) by simp
  then have t: "take n ys = take n xs" by simp
  have "take (Suc n) ys ! n = take (Suc n) (xs[n := v]) ! n"
    using assms(2) by simp
  then have "ys ! n = v" using assms(1) by simp
  then have "drop n ys = v # drop (Suc n) ys"
    using assms(1,3) by (simp add: Cons_nth_drop_Suc [symmetric])
  with t show ?thesis by simp
qed

lemma upd_stdin_same: "stdin w = bs \<Longrightarrow> w\<lparr>stdin := bs\<rparr> = w"
  by simp

lemma uint_length_word:
  assumes "length (units q) < 65535"
  shows "uint (length_word q) = int (length (units q)) + 1"
proof -
  have "unat (word_of_nat (length (units q) + 1) :: 16 word) = length (units q) + 1"
    using assms unfolding unat_of_nat by simp
  then show ?thesis
    unfolding uint_nat length_word_def by simp
qed

lemma convertcolor_rgb_record1:
  "stdin w = rgb_record 1 q @ rest \<Longrightarrow>
   convertcolor 1 256 w =
     Ret (Converted (uint (red q) div 256) (uint (green q) div 256) (uint (blue q) div 256) None)
         (w\<lparr>stdin := rest\<rparr>)"
  using convertcolor_rgb1 [where buflen = 256 and w = w and x = "red q" and y = "green q"
      and z = "blue q" and a = "fourth q" and rest = rest]
  by (simp add: rgb_record_def upd_stdin_same)

lemma convertcolor_rgb_record2:
  assumes "stdin w = rgb_record 2 q @ rest" and "length (units q) < 65535"
  shows "convertcolor 2 256 w =
     Ret (Converted (uint (red q) div 256) (uint (green q) div 256) (uint (blue q) div 256)
            (Some (take 255 (map name_char (units q)) @ [CHR 0x00])))
         (w\<lparr>stdin := rest\<rparr>)"
proof -
  from convertcolor_rgb2 [OF uint_length_word [OF assms(2)], where buflen = 256 and w = w and x = "red q"
      and y = "green q" and z = "blue q" and a = "fourth q" and p = "extra q"
      and t = "closing q" and rest = rest] assms(1)
  show ?thesis by (simp add: rgb_record_def upd_stdin_same)
qed


lemma readaco_loop_rgb:
  assumes v: "version = 1 \<or> version = 2"
  shows "stdin w = concat (map (rgb_record version) qs) @ rest \<Longrightarrow>
    (\<forall>q\<in>set qs. length (units q) < 65535) \<Longrightarrow>
    0 \<le> j \<Longrightarrow> colors = j + int (length qs) \<Longrightarrow> length (color a) = nat colors \<Longrightarrow>
    \<exists>a' w'. readaco_loop version colors j a w = Ret a' w' \<and>
      stdin w' = rest \<and> stdout w' = stdout w \<and> stderr w' = stderr w \<and>
      ver a' = ver a \<and> len a' = len a \<and> length (color a') = length (color a) \<and>
      take (nat j) (color a') = take (nat j) (color a) \<and>
      map rgb_of (drop (nat j) (color a')) = map rgb_expected qs"
proof (induction qs arbitrary: j a w)
  case Nil
  then show ?case by (simp add: readaco_loop_done)
next
  case (Cons q qs)
  let ?rest = "concat (map (rgb_record version) qs) @ rest"
  have inp: "stdin w = rgb_record version q @ ?rest" using Cons.prems(1) by simp
  have small: "length (units q) < 65535" using Cons.prems(2) by simp
  have lt: "j < colors" using Cons.prems(4) by simp
  have inr: "nat j < length (color a)" using Cons.prems(3,4,5) by simp
  obtain p w1 where step: "readaco_loop version colors j a w =
      readaco_loop version colors (j + 1)
        (a\<lparr>color := (color a)[nat j := Some \<lparr>r = word_of_int (uint (red q) div 256),
           g = word_of_int (uint (green q) div 256), b = word_of_int (uint (blue q) div 256),
           name = p\<rparr>]\<rparr>) w1"
    and w1: "stdin w1 = ?rest" "stdout w1 = stdout w" "stderr w1 = stderr w"
  proof (cases "version = 2")
    case True
    let ?s = "take 255 (map name_char (units q)) @ [CHR 0x00]"
    let ?w = "w\<lparr>stdin := ?rest\<rparr>"
    have "convertcolor 2 256 w =
        Ret (Converted (uint (red q) div 256) (uint (green q) div 256) (uint (blue q) div 256)
               (Some ?s)) ?w"
      using inp small True by (intro convertcolor_rgb_record2) simp_all
    then have "readaco_loop version colors j a w =
      readaco_loop version colors (j + 1)
        (a\<lparr>color := (color a)[nat j := Some \<lparr>r = word_of_int (uint (red q) div 256),
           g = word_of_int (uint (green q) div 256), b = word_of_int (uint (blue q) div 256),
           name = fst (strdup ?s ?w)\<rparr>]\<rparr>) (snd (strdup ?s ?w))"
      using True lt by (simp add: readaco_loop_step split: prod.splits)
    moreover have "stdin (snd (strdup ?s ?w)) = ?rest" "stdout (snd (strdup ?s ?w)) = stdout w"
      "stderr (snd (strdup ?s ?w)) = stderr w"
      by (simp_all add: strdup_fields)
    ultimately show ?thesis by (rule that)
  next
    case False
    then have v1: "version = 1" using v by simp
    let ?w = "w\<lparr>stdin := ?rest\<rparr>"
    have "convertcolor 1 256 w =
        Ret (Converted (uint (red q) div 256) (uint (green q) div 256) (uint (blue q) div 256)
               None) ?w"
      using inp v1 by (intro convertcolor_rgb_record1) simp
    then have "readaco_loop version colors j a w =
      readaco_loop version colors (j + 1)
        (a\<lparr>color := (color a)[nat j := Some \<lparr>r = word_of_int (uint (red q) div 256),
           g = word_of_int (uint (green q) div 256), b = word_of_int (uint (blue q) div 256),
           name = None\<rparr>]\<rparr>) ?w"
      using v1 lt by (simp add: readaco_loop_step)
    moreover have "stdin ?w = ?rest" "stdout ?w = stdout w" "stderr ?w = stderr w"
      by simp_all
    ultimately show ?thesis by (rule that)
  qed
  let ?e = "Some \<lparr>r = word_of_int (uint (red q) div 256),
           g = word_of_int (uint (green q) div 256), b = word_of_int (uint (blue q) div 256),
           name = p\<rparr>"
  let ?a1 = "a\<lparr>color := (color a)[nat j := ?e]\<rparr>"
  have "\<exists>a' w'. readaco_loop version colors (j + 1) ?a1 w1 = Ret a' w' \<and>
      stdin w' = rest \<and> stdout w' = stdout w1 \<and> stderr w' = stderr w1 \<and>
      ver a' = ver ?a1 \<and> len a' = len ?a1 \<and> length (color a') = length (color ?a1) \<and>
      take (nat (j + 1)) (color a') = take (nat (j + 1)) (color ?a1) \<and>
      map rgb_of (drop (nat (j + 1)) (color a')) = map rgb_expected qs"
    using Cons.prems w1 by (intro Cons.IH) simp_all
  then obtain a' w' where res: "readaco_loop version colors (j + 1) ?a1 w1 = Ret a' w'"
    and io: "stdin w' = rest" "stdout w' = stdout w1" "stderr w' = stderr w1"
    and same: "ver a' = ver ?a1" "len a' = len ?a1" "length (color a') = length (color ?a1)"
    and pre: "take (nat (j + 1)) (color a') = take (nat (j + 1)) (color ?a1)"
    and post: "map rgb_of (drop (nat (j + 1)) (color a')) = map rgb_expected qs"
    by blast
  have suc: "nat (j + 1) = Suc (nat j)" using Cons.prems(3) by simp
  have "take (nat j) (color a') = take (nat j) (color a) \<and>
        drop (nat j) (color a') = ?e # drop (Suc (nat j)) (color a')"
    using inr pre same(3) unfolding suc by (intro stored_slot) simp_all
  then have "take (nat j) (color a') = take (nat j) (color a)"
    and "map rgb_of (drop (nat j) (color a')) = map rgb_expected (q # qs)"
    using post unfolding suc by (simp_all add: rgb_of_stored)
  with step res io w1 same show ?case by simp
qed

subsection \<open>The word reader at the end of the stream\<close>

text \<open>
  C2. The word reader returns the next big-endian word, a number from 0 to 65535, and
  the end-of-stream result whenever fewer than two bytes are left. The code tests the
  count returned by \<^verbatim>\<open>fread\<close> against 0 only: with exactly one byte left it builds a
  word from that byte and the unset second byte of its buffer, a number from 0 to
  65535, so never the end-of-stream result \<open>-1\<close>, and the stream is empty afterwards.
\<close>

theorem readword_one_byte_left:
  "readword (w\<lparr>stdin := [b0]\<rparr>) = (word_of_buf b0 (stale w), w\<lparr>stdin := []\<rparr>) \<and>
   0 \<le> fst (readword (w\<lparr>stdin := [b0]\<rparr>)) \<and>
   fst (readword (w\<lparr>stdin := [b0]\<rparr>)) \<le> 65535 \<and>
   fst (readword (w\<lparr>stdin := [b0]\<rparr>)) \<noteq> - 1"
  using word_of_buf_range [of b0 "stale w"] by (simp add: readword_def)

subsection \<open>A record set of RGB colours\<close>

lemma readword_eprint:
  "readword (eprint s w) = (fst (readword w), eprint s (snd (readword w)))"
  by (simp add: readword_def eprint_def split: list.splits)

lemma stdin_eprint [simp]: "stdin (eprint s w) = stdin w"
  by (simp add: eprint_def)

lemma stdout_eprint [simp]: "stdout (eprint s w) = stdout w"
  by (simp add: eprint_def)

lemma heap_eprint [simp]: "heap (eprint s w) = heap w"
  by (simp add: eprint_def)

lemma acomalloc_served:
  "False \<notin> set (take 1 (heap w)) \<Longrightarrow> \<not> too_large n \<Longrightarrow>
   acomalloc n w = Ret () (w\<lparr>heap := tl (heap w)\<rparr>)"
  by (cases "heap w") (auto simp: acomalloc_def malloc_def)

lemma sizeof_aco_fits: "\<not> too_large sizeof_aco"
  by (simp add: too_large_def sizeof_aco_def)

lemma array_size_fits:
  assumes "0 \<le> k" and "k < 65536"
  shows "\<not> too_large (sizeof_acoentry * word_of_int k)"
proof -
  have "uint (16 * word_of_int k :: size_t) = (16 * k) mod 2 ^ 64"
    by (simp add: uint_word_ariths uint_word_of_int_eq take_bit_eq_mod mod_mult_right_eq)
  also have "\<dots> = 16 * k" using assms by simp
  finally have "uint (16 * word_of_int k :: size_t) < 1048576" using assms by simp
  then show ?thesis
    by (simp add: too_large_def sizeof_acoentry_def word_less_def)
qed

text \<open>
  C4. For a record set of version 1 or 2 whose records are all RGB, with the count word
  \<open>n\<close> equal to the number of records and the first two allocations served,
  \<^verbatim>\<open>readaco\<close> returns a palette whose length field and whose array both hold the declared
  count, every slot holds an entry, and the \<open>r\<close>, \<open>g\<close> and \<open>b\<close> of entry \<open>k\<close> are the three
  component words of record \<open>k\<close> divided by 256.
\<close>

theorem readaco_all_rgb:
  assumes v: "v = 1 \<or> v = 2"
    and inp: "stdin w = be16 v @ be16 n @ concat (map (rgb_record (uint v)) qs) @ rest"
    and n: "uint n = int (length qs)"
    and small: "\<forall>q\<in>set qs. length (units q) < 65535"
    and served: "False \<notin> set (take 2 (heap w))"
  shows "\<exists>a w'. readaco w = Ret (Some a) w' \<and> stdin w' = rest \<and>
           len a = int (length qs) \<and> length (color a) = length qs \<and>
           (\<forall>k<length qs. \<exists>e. color a ! k = Some e \<and>
              uint (r e) = uint (red (qs ! k)) div 256 \<and>
              uint (g e) = uint (green (qs ! k)) div 256 \<and>
              uint (b e) = uint (blue (qs ! k)) div 256)"
proof -
  let ?version = "uint v"
  have ver12: "?version = 1 \<or> ?version = 2" using v by auto
  let ?banner = "if ?version = 1 then '' 1 (photoshop < 7.0)\<newline>''
                 else '' 2 (photoshop >= 7.0)\<newline>''"
  let ?r1 = "be16 n @ concat (map (rgb_record ?version) qs) @ rest"
  let ?r2 = "concat (map (rgb_record ?version) qs) @ rest"
  let ?w1 = "eprint ?banner (eprint ''reading ACO stream version:'' (w\<lparr>stdin := ?r1\<rparr>))"
  let ?w2 = "eprint (fmt_d (int (length qs)) @ '' colors in this file\<newline>'')
               (eprint ?banner (eprint ''reading ACO stream version:'' (w\<lparr>stdin := ?r2\<rparr>)))"
  let ?w3 = "?w2\<lparr>heap := tl (tl (heap w))\<rparr>"
  let ?a0 = "\<lparr>ver = ?version, len = int (length qs), color = replicate (length qs) None\<rparr>"
  have rd1: "readword w = (?version, w\<lparr>stdin := ?r1\<rparr>)"
    using inp by (rule readword_be16)
  have rd2: "readword ?w1 = (int (length qs), eprint ?banner
      (eprint ''reading ACO stream version:'' (w\<lparr>stdin := ?r2\<rparr>)))"
    using readword_be16 [of "w\<lparr>stdin := ?r1\<rparr>" n ?r2] n
    by (simp add: readword_eprint)
  have fits: "\<not> too_large (sizeof_acoentry * word_of_int (int (length qs)))"
    using n uint_word16_bounds [of n] by (intro array_size_fits) simp_all
  have m1: "acomalloc sizeof_aco ?w2 = Ret () (?w2\<lparr>heap := tl (heap w)\<rparr>)"
    using served acomalloc_served [of ?w2 sizeof_aco] sizeof_aco_fits
    by (cases "heap w") (auto simp: eprint_def)
  have m2: "acomalloc (sizeof_acoentry * word_of_int (int (length qs)))
              (?w2\<lparr>heap := tl (heap w)\<rparr>) = Ret () ?w3"
    using served fits acomalloc_served [of "?w2\<lparr>heap := tl (heap w)\<rparr>"
        "sizeof_acoentry * word_of_int (int (length qs))"]
    by (cases "heap w"; cases "tl (heap w)") (auto simp: eprint_def)
  have red: "readaco w = bind (readaco_loop ?version (int (length qs)) 0 ?a0 ?w3)
                 (\<lambda>a w. Ret (Some a) w)"
    using ver12 rd1 rd2 m1 m2 uint_not_eof [of v]
    by (simp add: readaco_alt Let_def)
  have "\<exists>a' w'. readaco_loop ?version (int (length qs)) 0 ?a0 ?w3 = Ret a' w' \<and>
      stdin w' = rest \<and> stdout w' = stdout ?w3 \<and> stderr w' = stderr ?w3 \<and>
      ver a' = ver ?a0 \<and> len a' = len ?a0 \<and> length (color a') = length (color ?a0) \<and>
      take (nat 0) (color a') = take (nat 0) (color ?a0) \<and>
      map rgb_of (drop (nat 0) (color a')) = map rgb_expected qs"
    using small by (intro readaco_loop_rgb [OF ver12]) simp_all
  then obtain a' w' where res: "readaco_loop ?version (int (length qs)) 0 ?a0 ?w3 = Ret a' w'"
    and io: "stdin w' = rest"
    and shape: "len a' = int (length qs)" "length (color a') = length qs"
    and vals: "map rgb_of (color a') = map rgb_expected qs"
    by auto
  have "\<exists>e. color a' ! k = Some e \<and>
              uint (r e) = uint (red (qs ! k)) div 256 \<and>
              uint (g e) = uint (green (qs ! k)) div 256 \<and>
              uint (b e) = uint (blue (qs ! k)) div 256" if "k < length qs" for k
  proof -
    have "map rgb_of (color a') ! k = map rgb_expected qs ! k" using vals by simp
    then have "rgb_of (color a' ! k) = rgb_expected (qs ! k)"
      using that shape(2) by simp
    then show ?thesis
      by (cases "color a' ! k") (auto simp: rgb_of_def rgb_expected_def)
  qed
  with red res io shape show ?thesis by simp
qed

theorem readaco_all_rgb_witness:
  "\<exists>a w'. readaco (start (be16 2 @ be16 2 @
       concat (map (rgb_record (uint (2 :: 16 word)))
         [RgbRec 0xFF00 0x8000 0x12FF 0 0 [0x41, 0x142] 0, RgbRec 0x0100 0x00FF 0xFFFF 0 0 [] 0])
       @ [])) = Ret (Some a) w' \<and> stdin w' = [] \<and>
     len a = 2 \<and> length (color a) = 2 \<and>
     (\<exists>e. color a ! 0 = Some e \<and> uint (r e) = 255 \<and> uint (g e) = 128 \<and> uint (b e) = 18) \<and>
     (\<exists>e. color a ! 1 = Some e \<and> uint (r e) = 1 \<and> uint (g e) = 0 \<and> uint (b e) = 255)"
proof -
  let ?qs = "[RgbRec 0xFF00 0x8000 0x12FF 0 0 [0x41, 0x142] 0, RgbRec 0x0100 0x00FF 0xFFFF 0 0 [] 0]"
  let ?w = "start (be16 2 @ be16 2 @ concat (map (rgb_record (uint (2 :: 16 word))) ?qs) @ [])"
  have "\<exists>a w'. readaco ?w = Ret (Some a) w' \<and> stdin w' = [] \<and>
           len a = int (length ?qs) \<and> length (color a) = length ?qs \<and>
           (\<forall>k<length ?qs. \<exists>e. color a ! k = Some e \<and>
              uint (r e) = uint (red (?qs ! k)) div 256 \<and>
              uint (g e) = uint (green (?qs ! k)) div 256 \<and>
              uint (b e) = uint (blue (?qs ! k)) div 256)"
    by (rule readaco_all_rgb [where v = 2 and n = 2]) (simp_all add: start_def)
  then obtain a w' where "readaco ?w = Ret (Some a) w'" "stdin w' = []"
    "len a = int (length ?qs)" "length (color a) = length ?qs"
    and each: "\<And>k. k < length ?qs \<Longrightarrow> \<exists>e. color a ! k = Some e \<and>
              uint (r e) = uint (red (?qs ! k)) div 256 \<and>
              uint (g e) = uint (green (?qs ! k)) div 256 \<and>
              uint (b e) = uint (blue (?qs ! k)) div 256"
    by blast
  moreover from each [of 0] each [of 1]
  have "\<exists>e. color a ! 0 = Some e \<and> uint (r e) = 255 \<and> uint (g e) = 128 \<and> uint (b e) = 18"
    and "\<exists>e. color a ! 1 = Some e \<and> uint (r e) = 1 \<and> uint (g e) = 0 \<and> uint (b e) = 255"
    by simp_all
  ultimately show ?thesis by auto
qed

subsection \<open>The name of a version-2 colour\<close>

text \<open>
  C5. A version-2 RGB record whose length word \<open>l\<close> is \<open>L \<ge> 1\<close> is followed by the
  \<open>L - 1\<close> units \<open>us\<close> of the name and one closing word \<open>t\<close>. \<^verbatim>\<open>convertcolor\<close>, called
  with the 256-byte buffer of \<^verbatim>\<open>readaco\<close>, turns every unit into one character (a space
  for a unit above 255), keeps the first 255 of them followed by the closing NUL, and
  reads all \<open>L - 1\<close> units and the closing word: the stream is left at \<open>rest\<close>, however
  long the name is.
\<close>

theorem convertcolor_name:
  assumes "stdin w = be16s ([0, x, y, z, a, p, l] @ us @ [t]) @ rest"
    and "uint l = int (length us) + 1"
  shows "convertcolor 2 256 w =
           Ret (Converted (uint x div 256) (uint y div 256) (uint z div 256)
                  (Some (take 255 (map name_char us) @ [CHR 0x00])))
               (w\<lparr>stdin := rest\<rparr>) \<and>
         length (take 255 (map name_char us)) = min 255 (length us)"
  using convertcolor_rgb2 [OF assms(2), where buflen = 256 and w = w and x = x and y = y
      and z = z and a = a and p = p and t = t and rest = rest] assms(1)
  by (simp add: upd_stdin_same)

theorem convertcolor_name_witness:
  "convertcolor 2 256
     (start (be16s ([0, 0xFF00, 0x8000, 0x12FF, 0, 0, 301] @ replicate 300 0x142 @ [0]) @ [7])) =
     Ret (Converted 255 128 18 (Some (replicate 255 CHR '' '' @ [CHR 0x00])))
         ((start (be16s ([0, 0xFF00, 0x8000, 0x12FF, 0, 0, 301] @ replicate 300 0x142 @ [0]) @ [7]))
            \<lparr>stdin := [7]\<rparr>)"
  using convertcolor_name [where w = "start (be16s ([0, 0xFF00, 0x8000, 0x12FF, 0, 0, 301] @
      replicate 300 0x142 @ [0]) @ [7])" and x = "0xFF00" and y = "0x8000" and z = "0x12FF"
      and a = 0 and p = 0 and l = 301 and us = "replicate 300 0x142" and t = 0 and rest = "[7]"]
  by (simp add: start_def name_char_def)

subsection \<open>Records in another colour space\<close>



subsection \<open>The emitter\<close>

lemma gengpl_row_done: "\<not> i < cols \<Longrightarrow> gengpl_row a j i w = Ret () w"
  by (simp add: gengpl_row.simps [of a j i w])

lemma gengpl_row_step:
  "i < cols \<Longrightarrow> gengpl_row a j i w =
     (if j + i = len a then Ret () w
      else (case slot a (j + i) of
              None \<Rightarrow> Undefined w
            | Some e \<Rightarrow> gengpl_row a j (i + 1) (print (colorline w e) w)))"
  by (simp add: gengpl_row.simps [of a j i w])

lemma emit_range_done: "\<not> k < hi \<Longrightarrow> emit_range a k hi w = Ret () w"
  by (simp add: emit_range.simps [of a k hi w])

lemma emit_range_step:
  "k < hi \<Longrightarrow> emit_range a k hi w =
     (case slot a k of
        None \<Rightarrow> Undefined w
      | Some e \<Rightarrow> emit_range a (k + 1) hi (print (colorline w e) w))"
  by (simp add: emit_range.simps [of a k hi w])

lemma gengpl_rows_done: "\<not> j < len a \<Longrightarrow> gengpl_rows a j w = Ret () w"
  by (simp add: gengpl_rows.simps [of a j w])

lemma gengpl_rows_step:
  "j < len a \<Longrightarrow> gengpl_rows a j w =
     bind (gengpl_row a j 0 w) (\<lambda>_ w'. gengpl_rows a (j + cols) w')"
  by (simp add: gengpl_rows.simps [of a j w])

lemma bind_Ret [simp]: "bind m Ret = m"
  by (cases m) simp_all

lemma gengpl_row_emit_range:
  "j + i \<le> len a \<Longrightarrow> gengpl_row a j i w = emit_range a (j + i) (min (j + cols) (len a)) w"
proof (induction a j i w rule: gengpl_row.induct)
  case (1 a j i w)
  show ?case
  proof (cases "i < cols")
    case False
    then show ?thesis by (simp add: gengpl_row_done emit_range_done)
  next
    case True
    show ?thesis
    proof (cases "j + i = len a")
      case True
      with \<open>i < cols\<close> show ?thesis by (simp add: gengpl_row_step emit_range_done)
    next
      case False
      with "1.prems" have below: "j + i < len a" by simp
      show ?thesis
      proof (cases "slot a (j + i)")
        case None
        with True False below show ?thesis
          by (simp add: gengpl_row_step emit_range_step)
      next
        case (Some e)
        have "gengpl_row a j (i + 1) (print (colorline w e) w) =
              emit_range a (j + (i + 1)) (min (j + cols) (len a)) (print (colorline w e) w)"
          using True False Some below by (intro "1.IH") simp_all
        with True False Some below show ?thesis
          by (simp add: gengpl_row_step emit_range_step add.assoc)
      qed
    qed
  qed
qed

lemma emit_range_split:
  "k \<le> m \<Longrightarrow> m \<le> hi \<Longrightarrow>
   emit_range a k hi w = bind (emit_range a k m w) (\<lambda>_ w'. emit_range a m hi w')"
proof (induction a k m w rule: emit_range.induct)
  case (1 a k m w)
  show ?case
  proof (cases "k < m")
    case False
    with "1.prems" have "k = m" by simp
    then show ?thesis by (simp add: emit_range_done)
  next
    case True
    then have khi: "k < hi" using "1.prems" by simp
    show ?thesis
    proof (cases "slot a k")
      case None
      with True khi show ?thesis by (simp add: emit_range_step)
    next
      case (Some e)
      have "emit_range a (k + 1) hi (print (colorline w e) w) =
            bind (emit_range a (k + 1) m (print (colorline w e) w))
              (\<lambda>_ w'. emit_range a m hi w')"
        using True Some "1.prems" by (intro "1.IH") simp_all
      with True khi Some show ?thesis by (simp add: emit_range_step)
    qed
  qed
qed

lemma gengpl_rows_emit_range: "gengpl_rows a j w = emit_range a j (len a) w"
proof (induction a j w rule: gengpl_rows.induct)
  case (1 a j w)
  show ?case
  proof (cases "j < len a")
    case False
    then show ?thesis by (simp add: gengpl_rows_done emit_range_done)
  next
    case True
    have ih: "gengpl_rows a (j + cols) w' = emit_range a (j + cols) (len a) w'" for w'
      using True by (rule "1.IH")
    have row: "gengpl_row a j 0 w = emit_range a j (min (j + cols) (len a)) w"
      using True gengpl_row_emit_range [of j 0 a w] by simp
    show ?thesis
    proof (cases "j + cols \<le> len a")
      case True
      then have "emit_range a j (len a) w =
          bind (emit_range a j (j + cols) w) (\<lambda>_ w'. emit_range a (j + cols) (len a) w')"
        by (intro emit_range_split) (simp_all add: cols_def)
      with True \<open>j < len a\<close> row ih show ?thesis
        by (simp add: gengpl_rows_step min_def)
    next
      case False
      then have "emit_range a (j + cols) (len a) w' = Ret () w'" for w'
        by (simp add: emit_range_done)
      with False \<open>j < len a\<close> row ih show ?thesis
        by (simp add: gengpl_rows_step min_def)
    qed
  qed
qed

lemma colorline_print [simp]: "colorline (print s w) = colorline w"
  by (rule ext) (simp add: colorline_def print_def fmt_s_def split: option.splits)

lemma print_print [simp]: "print t (print s w) = print (s @ t) w"
  by (simp add: print_def)

lemma print_Nil [simp]: "print [] w = w"
  by (simp add: print_def)

lemma emit_range_entries:
  "color a = map Some es \<Longrightarrow> 0 \<le> k \<Longrightarrow> hi = int (length es) \<Longrightarrow>
   emit_range a k hi w = Ret () (print (concat (map (colorline w) (drop (nat k) es))) w)"
proof (induction a k hi w rule: emit_range.induct)
  case (1 a k hi w)
  show ?case
  proof (cases "k < hi")
    case False
    with "1.prems" show ?thesis by (simp add: emit_range_done)
  next
    case True
    with "1.prems" have inr: "nat k < length es" by simp
    then have sl: "slot a k = Some (es ! nat k)"
      using "1.prems" by (simp add: slot_def)
    have dr: "drop (nat k) es = es ! nat k # drop (nat (k + 1)) es"
      using inr "1.prems"(2) by (simp add: Cons_nth_drop_Suc nat_add_distrib)
    have "emit_range a (k + 1) hi (print (colorline w (es ! nat k)) w) =
        Ret () (print (concat (map (colorline (print (colorline w (es ! nat k)) w))
                  (drop (nat (k + 1)) es))) (print (colorline w (es ! nat k)) w))"
      using True sl "1.prems" by (intro "1.IH") simp_all
    with True sl dr show ?thesis by (simp add: emit_range_step)
  qed
qed


text \<open>
  C9. The emitter with its two nested loops (rows of \<open>cols\<close> entries, left at the
  entry after the last) writes what a single loop over the slots \<open>0\<close> to \<open>len - 1\<close>
  writes after the header: one line for each entry, in the order of the array. For a
  palette of length 0 the output is the header alone, its four lines
  \<^verbatim>\<open>GIMP Palette\<close>, \<^verbatim>\<open>Name: Untitled\<close>, \<^verbatim>\<open>Columns: 16\<close> and \<^verbatim>\<open>#\<close>; for a palette whose
  slots all hold entries the output is the header and the lines of the entries.
\<close>

theorem gengpl_sequential:
  "gengpl a w = gengpl_seq a w \<and>
   (len a = 0 \<longrightarrow>
      gengpl a w =
        Ret () (print ''GIMP Palette\<newline>Name: Untitled\<newline>Columns: 16\<newline>#'' w)) \<and>
   (color a = map Some es \<and> len a = int (length es) \<longrightarrow>
      gengpl a w = Ret () (print (header @ concat (map (colorline w) es)) w))"
proof -
  have eq: "gengpl a w = gengpl_seq a w"
    by (simp add: gengpl_def gengpl_seq_def gengpl_rows_emit_range)
  have zero: "gengpl a w =
      Ret () (print ''GIMP Palette\<newline>Name: Untitled\<newline>Columns: 16\<newline>#'' w)"
    if "len a = 0"
    using that by (simp add: eq gengpl_seq_def emit_range_done header_def)
  have full: "gengpl a w = Ret () (print (header @ concat (map (colorline w) es)) w)"
    if "color a = map Some es" "len a = int (length es)"
    using that emit_range_entries [of a es 0 "len a" "print header w"]
    by (simp add: eq gengpl_seq_def)
  from eq zero full show ?thesis by blast
qed

theorem gengpl_sequential_witness:
  "gengpl \<lparr>ver = 1, len = 0, color = []\<rparr> (start []) =
     Ret () (print ''GIMP Palette\<newline>Name: Untitled\<newline>Columns: 16\<newline>#'' (start [])) \<and>
   gengpl \<lparr>ver = 2, len = 5, color = map Some
       [\<lparr>r = 1, g = 2, b = 3, name = Some ''a''\<rparr>, \<lparr>r = 4, g = 5, b = 6, name = Some ''b''\<rparr>,
        \<lparr>r = 7, g = 8, b = 9, name = Some ''c''\<rparr>, \<lparr>r = 10, g = 11, b = 12, name = Some ''d''\<rparr>,
        \<lparr>r = 13, g = 14, b = 15, name = Some ''e''\<rparr>]\<rparr> (start []) =
     Ret () (print (header @ concat (map (colorline (start []))
       [\<lparr>r = 1, g = 2, b = 3, name = Some ''a''\<rparr>, \<lparr>r = 4, g = 5, b = 6, name = Some ''b''\<rparr>,
        \<lparr>r = 7, g = 8, b = 9, name = Some ''c''\<rparr>, \<lparr>r = 10, g = 11, b = 12, name = Some ''d''\<rparr>,
        \<lparr>r = 13, g = 14, b = 15, name = Some ''e''\<rparr>])) (start []))"
  using gengpl_sequential [where a = "\<lparr>ver = 1, len = 0, color = []\<rparr>"
      and w = "start []" and es = "[]", THEN conjunct2]
    gengpl_sequential [where a = "\<lparr>ver = 2, len = 5, color = map Some
       [\<lparr>r = 1, g = 2, b = 3, name = Some ''a''\<rparr>, \<lparr>r = 4, g = 5, b = 6, name = Some ''b''\<rparr>,
        \<lparr>r = 7, g = 8, b = 9, name = Some ''c''\<rparr>, \<lparr>r = 10, g = 11, b = 12, name = Some ''d''\<rparr>,
        \<lparr>r = 13, g = 14, b = 15, name = Some ''e''\<rparr>]\<rparr>" and w = "start []"
      and es = "[\<lparr>r = 1, g = 2, b = 3, name = Some ''a''\<rparr>, \<lparr>r = 4, g = 5, b = 6, name = Some ''b''\<rparr>,
        \<lparr>r = 7, g = 8, b = 9, name = Some ''c''\<rparr>, \<lparr>r = 10, g = 11, b = 12, name = Some ''d''\<rparr>,
        \<lparr>r = 13, g = 14, b = 15, name = Some ''e''\<rparr>]", THEN conjunct2]
  by simp

subsection \<open>A stream that ends behind the version word\<close>

lemma fmt_d_minus_1: "fmt_d (- 1) = ''-1''"
  by (simp add: fmt_d_def dec.simps digit_def)

lemma readword_eof: "stdin w = [] \<Longrightarrow> readword w = (- 1, w)"
  by (simp add: readword_def)

lemma array_size_of_minus_1: "too_large (sizeof_acoentry * word_of_int (- 1))"
  by (simp add: too_large_def sizeof_acoentry_def)

lemma upd_heap_same: "heap w = h \<Longrightarrow> w\<lparr>heap := h\<rparr> = w"
  by simp

lemma acomalloc_too_large:
  "too_large n \<Longrightarrow>
   acomalloc n w = Exit 1 (eprint ''Out of memory!\<newline>'' (w\<lparr>heap := tl (heap w)\<rparr>))"
  by (cases "heap w") (simp_all add: acomalloc_def malloc_def upd_heap_same)

lemma acomalloc_refused:
  "heap w = False # h \<Longrightarrow>
   acomalloc n w = Exit 1 (eprint ''Out of memory!\<newline>'' (w\<lparr>heap := h\<rparr>))"
  by (simp add: acomalloc_def malloc_def)

lemma readaco_lone_version:
  assumes "v = 1 \<or> v = 2" and "stdin w = be16 v"
  shows "readaco w =
           Exit 1 (eprint (''reading ACO stream version:'' @
                     (if v = 1 then '' 1 (photoshop < 7.0)\<newline>''
                      else '' 2 (photoshop >= 7.0)\<newline>'') @
                     ''-1 colors in this file\<newline>'' @ ''Out of memory!\<newline>'')
                   (w\<lparr>stdin := [],
                      heap := drop (if take 1 (heap w) = [False] then 1 else 2) (heap w)\<rparr>))"
proof -
  let ?banner = "if v = 1 then '' 1 (photoshop < 7.0)\<newline>''
                 else '' 2 (photoshop >= 7.0)\<newline>''"
  let ?w2 = "eprint (''reading ACO stream version:'' @ ?banner @
               ''-1 colors in this file\<newline>'') (w\<lparr>stdin := []\<rparr>)"
  have ver12: "uint v = 1 \<or> uint v = 2" using assms(1) by auto
  have v1: "uint v = 1 \<longleftrightarrow> v = 1" using assms(1) by auto
  have rd1: "readword w = (uint v, w\<lparr>stdin := []\<rparr>)"
    using readword_be16 [of w v "[]"] assms(2) by simp
  have first: "readaco w =
           bind (acomalloc sizeof_aco ?w2)
             (\<lambda>_ w. bind (acomalloc (sizeof_acoentry * word_of_int (- 1)) w)
               (\<lambda>_ w. bind (readaco_loop (uint v) (- 1) 0
                              \<lparr>ver = uint v, len = - 1, color = []\<rparr> w)
                         (\<lambda>a w. Ret (Some a) w)))"
    using ver12 rd1 uint_not_eof [of v]
    by (simp add: readaco_alt Let_def readword_eprint readword_eof fmt_d_minus_1 v1
        eprint_def)
  have "readaco w =
           Exit 1 (eprint (''reading ACO stream version:'' @ ?banner @
                     ''-1 colors in this file\<newline>'' @ ''Out of memory!\<newline>'')
                   (w\<lparr>stdin := [],
                      heap := drop (if take 1 (heap w) = [False] then 1 else 2) (heap w)\<rparr>))"
  proof (cases "take 1 (heap w) = [False]")
    case True
    then obtain h where h: "heap w = False # h" by (cases "heap w") auto
    then have "heap ?w2 = False # h" by simp
    then have "acomalloc sizeof_aco ?w2 =
        Exit 1 (eprint ''Out of memory!\<newline>'' (?w2\<lparr>heap := h\<rparr>))"
      by (rule acomalloc_refused)
    then have "readaco w = Exit 1 (eprint ''Out of memory!\<newline>'' (?w2\<lparr>heap := h\<rparr>))"
      by (simp only: first bind.simps)
    moreover have "eprint ''Out of memory!\<newline>'' (?w2\<lparr>heap := h\<rparr>) =
        eprint (''reading ACO stream version:'' @ ?banner @
                  ''-1 colors in this file\<newline>'' @ ''Out of memory!\<newline>'')
          (w\<lparr>stdin := [], heap := drop 1 (heap w)\<rparr>)"
      using h by (simp add: eprint_def)
    ultimately show ?thesis using True by simp
  next
    case False
    then have "False \<notin> set (take 1 (heap ?w2))"
      by (cases "heap w") auto
    then have "acomalloc sizeof_aco ?w2 = Ret () (?w2\<lparr>heap := tl (heap ?w2)\<rparr>)"
      using sizeof_aco_fits by (rule acomalloc_served)
    moreover have "acomalloc (sizeof_acoentry * word_of_int (- 1)) (?w2\<lparr>heap := tl (heap ?w2)\<rparr>) =
        Exit 1 (eprint ''Out of memory!\<newline>''
          (?w2\<lparr>heap := tl (heap ?w2), heap := tl (heap (?w2\<lparr>heap := tl (heap ?w2)\<rparr>))\<rparr>))"
      using array_size_of_minus_1 by (rule acomalloc_too_large)
    ultimately have "readaco w = Exit 1 (eprint ''Out of memory!\<newline>''
          (?w2\<lparr>heap := tl (heap ?w2), heap := tl (heap (?w2\<lparr>heap := tl (heap ?w2)\<rparr>))\<rparr>))"
      by (simp only: first bind.simps)
    moreover have "tl (tl (heap w)) = drop 2 (heap w)"
      by (simp add: numeral_2_eq_2 drop_Suc)
    then have "eprint ''Out of memory!\<newline>''
          (?w2\<lparr>heap := tl (heap ?w2), heap := tl (heap (?w2\<lparr>heap := tl (heap ?w2)\<rparr>))\<rparr>) =
        eprint (''reading ACO stream version:'' @ ?banner @
                  ''-1 colors in this file\<newline>'' @ ''Out of memory!\<newline>'')
          (w\<lparr>stdin := [], heap := drop 2 (heap w)\<rparr>)"
      by (simp add: eprint_def)
    ultimately show ?thesis using False by simp
  qed
  then show ?thesis .
qed

text \<open>
  C10, as the code has it. The count is read with \<^verbatim>\<open>readword\<close>, not \<^verbatim>\<open>mustreadword\<close>.
  When the stream holds a version word 1 or 2 and nothing more, \<^verbatim>\<open>readaco\<close> does not stop
  at that read and writes no \<^verbatim>\<open>Unexpected end of file!\<close>: the count is \<open>-1\<close> and is
  reported as \<^verbatim>\<open>-1 colors in this file\<close>. The length \<open>-1\<close> then sizes the request for the
  array, which cannot be served: \<^verbatim>\<open>acomalloc\<close> writes \<^verbatim>\<open>Out of memory!\<close> and ends the
  process with status 1 (at its first request already when that one is refused).
  \<^verbatim>\<open>readaco\<close> returns no palette and the loop over the records is never reached.
\<close>

theorem lone_version_word:
  assumes "v = 1 \<or> v = 2" and "stdin w = be16 v"
  shows "readaco w =
           Exit 1 (eprint (''reading ACO stream version:'' @
                     (if v = 1 then '' 1 (photoshop < 7.0)\<newline>''
                      else '' 2 (photoshop >= 7.0)\<newline>'') @
                     ''-1 colors in this file\<newline>'' @ ''Out of memory!\<newline>'')
                   (w\<lparr>stdin := [],
                      heap := drop (if take 1 (heap w) = [False] then 1 else 2) (heap w)\<rparr>)) \<and>
         main w =
           Exit 1 (eprint (''reading ACO stream version:'' @
                     (if v = 1 then '' 1 (photoshop < 7.0)\<newline>''
                      else '' 2 (photoshop >= 7.0)\<newline>'') @
                     ''-1 colors in this file\<newline>'' @ ''Out of memory!\<newline>'')
                   (w\<lparr>stdin := [],
                      heap := drop (if take 1 (heap w) = [False] then 1 else 2) (heap w)\<rparr>))"
  using readaco_lone_version [OF assms] by (simp add: main_def)

text \<open>
  C10 as stated fails on the version word alone: \<^verbatim>\<open>readaco\<close> returns no palette with a
  length of \<open>-1\<close> and the loop over the records is not reached, the process ends in
  \<^verbatim>\<open>acomalloc\<close> with status 1.
\<close>

theorem lone_version_word_exits:
  "readaco (start [0, 1]) =
     Exit 1
       \<lparr>stdin = [], stdout = [],
        stderr = ''reading ACO stream version: 1 (photoshop < 7.0)\<newline>-1 colors in this file\<newline>Out of memory!\<newline>'',
        heap = [], stale = 0, nulltext = ''(null)''\<rparr> \<and>
   main (start [0, 1]) =
     Exit 1
       \<lparr>stdin = [], stdout = [],
        stderr = ''reading ACO stream version: 1 (photoshop < 7.0)\<newline>-1 colors in this file\<newline>Out of memory!\<newline>'',
        heap = [], stale = 0, nulltext = ''(null)''\<rparr>"
  by code_simp

theorem lone_version_word_witness:
  "readaco ((start (be16 2))\<lparr>heap := [True, True, True]\<rparr>) =
     Exit 1
       \<lparr>stdin = [], stdout = [],
        stderr = ''reading ACO stream version: 2 (photoshop >= 7.0)\<newline>-1 colors in this file\<newline>Out of memory!\<newline>'',
        heap = [True], stale = 0, nulltext = ''(null)''\<rparr> \<and>
   main ((start (be16 2))\<lparr>heap := [True, True, True]\<rparr>) =
     Exit 1
       \<lparr>stdin = [], stdout = [],
        stderr = ''reading ACO stream version: 2 (photoshop >= 7.0)\<newline>-1 colors in this file\<newline>Out of memory!\<newline>'',
        heap = [True], stale = 0, nulltext = ''(null)''\<rparr>"
  using lone_version_word [where v = 2 and w = "(start (be16 2))\<lparr>heap := [True, True, True]\<rparr>"]
  by (simp add: start_def eprint_def)

subsection \<open>The program\<close>

lemma bind_not_None: "(\<And>x w'. f x w' \<noteq> Ret None w1) \<Longrightarrow> bind m f \<noteq> Ret None w1"
  by (cases m) simp_all

lemma readaco_None:
  assumes "readaco w = Ret None w1"
  shows "stdin w = [] \<and> w1 = w"
proof (cases "stdin w")
  case Nil
  with assms show ?thesis by (simp add: readaco_alt readword_def)
next
  case (Cons b0 bs)
  obtain x w' where rd: "readword w = (x, w')" and x: "x \<noteq> - 1"
    using Cons word_of_buf_not_eof
    by (cases bs) (simp_all add: readword_def)
  have "readaco w \<noteq> Ret None w1"
  proof (cases "x = 1 \<or> x = 2")
    case True
    let ?w = "eprint (if x = 1 then '' 1 (photoshop < 7.0)\<newline>''
        else '' 2 (photoshop >= 7.0)\<newline>'') (eprint ''reading ACO stream version:'' w')"
    obtain c w'' where rc: "readword ?w = (c, w'')"
      by (cases "readword ?w")
    have "readaco w = bind (acomalloc sizeof_aco
            (eprint (fmt_d c @ '' colors in this file\<newline>'') w''))
        (\<lambda>_ w. bind (acomalloc (sizeof_acoentry * word_of_int c) w) (\<lambda>_ w.
           bind (readaco_loop x c 0 \<lparr>ver = x, len = c, color = replicate (nat c) None\<rparr> w)
             (\<lambda>a w. Ret (Some a) w)))"
      using True rd x rc by (simp add: readaco_alt Let_def del: bind.simps)
    then show ?thesis
      by (simp only:) (intro bind_not_None, simp)
  next
    case False
    with rd x show ?thesis by (simp add: readaco_alt Let_def)
  qed
  with assms show ?thesis by simp
qed

text \<open>
  C6. \<^verbatim>\<open>main\<close> calls \<^verbatim>\<open>readaco\<close> twice, the second time on the stream as the first call
  left it. When both calls return, the palette of the second call is written if there
  is one, else the palette of the first call if there is one, else nothing is written
  to standard output and the diagnostic \<^verbatim>\<open>No data!\<close> goes to standard error. The
  first call returns no palette only on an empty stream, and then the second returns
  none either.
\<close>

theorem main_emits:
  assumes "readaco w = Ret p1 w1" and "readaco w1 = Ret p2 w2"
  shows "(p2 = Some a2 \<longrightarrow>
            main w = bind (gengpl a2 (eprint ''Generating GPL...\<newline>'' w2))
                       (\<lambda>_ w. Ret 0 (eprint ''Done.\<newline>'' w))) \<and>
         (p1 = Some a1 \<and> p2 = None \<longrightarrow>
            main w = bind (gengpl a1 (eprint ''Generating GPL...\<newline>'' w2))
                       (\<lambda>_ w. Ret 0 (eprint ''Done.\<newline>'' w))) \<and>
         (p1 = None \<longrightarrow>
            p2 = None \<and> stdin w = [] \<and>
            main w = Ret 0 (eprint ''Generating GPL...\<newline>No data!Done.\<newline>'' w))"
proof -
  have none: "p2 = None \<and> stdin w = [] \<and>
      main w = Ret 0 (eprint ''Generating GPL...\<newline>No data!Done.\<newline>'' w)" if "p1 = None"
  proof -
    from that assms(1) have e: "stdin w = []" "w1 = w"
      using readaco_None [of w w1] by simp_all
    with assms that have "p2 = None" "w2 = w" by simp_all
    with that e assms show ?thesis
      by (simp add: main_def Let_def eprint_def)
  qed
  from assms none show ?thesis
    by (auto simp: main_def Let_def)
qed


theorem main_emits_witness:
  "main (start [0,1,0,1, 0,0, 255,0, 128,0, 0,0, 0,0,
                0,2,0,1, 0,0, 1,0, 2,0, 3,0, 0,0, 0,0, 0,3, 0,65, 1,66, 0,0]) =
     Ret 0 \<lparr>stdin = [],
       stdout = ''GIMP Palette\<newline>Name: Untitled\<newline>Columns: 16\<newline>#\<newline>1 2 3 A '',
       stderr = ''reading ACO stream version: 1 (photoshop < 7.0)\<newline>1 colors in this file\<newline>reading ACO stream version: 2 (photoshop >= 7.0)\<newline>1 colors in this file\<newline>Generating GPL...\<newline>Done.\<newline>'',
       heap = [], stale = 0, nulltext = ''(null)''\<rparr> \<and>
   main (start [0,2,0,1, 0,0, 1,0, 2,0, 3,0, 0,0, 0,0, 0,3, 0,65, 1,66, 0,0]) =
     Ret 0 \<lparr>stdin = [],
       stdout = ''GIMP Palette\<newline>Name: Untitled\<newline>Columns: 16\<newline>#\<newline>1 2 3 A '',
       stderr = ''reading ACO stream version: 2 (photoshop >= 7.0)\<newline>1 colors in this file\<newline>Generating GPL...\<newline>Done.\<newline>'',
       heap = [], stale = 0, nulltext = ''(null)''\<rparr> \<and>
   main (start []) =
     Ret 0 \<lparr>stdin = [], stdout = [], stderr = ''Generating GPL...\<newline>No data!Done.\<newline>'',
       heap = [], stale = 0, nulltext = ''(null)''\<rparr>"
proof -
  let ?A1 = "\<lparr>ver = 1, len = 1, color = [Some \<lparr>r = 255, g = 128, b = 0, name = None\<rparr>]\<rparr>"
  let ?A2 = "\<lparr>ver = 2, len = 1, color = [Some \<lparr>r = 1, g = 2, b = 3, name = Some ''A ''\<rparr>]\<rparr>"
  let ?e1 = "''reading ACO stream version: 1 (photoshop < 7.0)\<newline>1 colors in this file\<newline>''"
  let ?e2 = "''reading ACO stream version: 2 (photoshop >= 7.0)\<newline>1 colors in this file\<newline>''"
  let ?S2 = "[0,2,0,1, 0,0, 1,0, 2,0, 3,0, 0,0, 0,0, 0,3, 0,65, 1,66, 0,0] :: byte list"
  let ?W = "start ([0,1,0,1, 0,0, 255,0, 128,0, 0,0, 0,0] @ ?S2)"
  let ?W1 = "\<lparr>stdin = ?S2, stdout = [], stderr = ?e1, heap = [], stale = 0,
              nulltext = ''(null)''\<rparr>"
  let ?W2 = "\<lparr>stdin = [], stdout = [], stderr = ?e1 @ ?e2, heap = [], stale = 0,
              nulltext = ''(null)''\<rparr>"
  let ?V1 = "\<lparr>stdin = [], stdout = [], stderr = ?e2, heap = [], stale = 0,
              nulltext = ''(null)''\<rparr>"
  have a1: "readaco ?W = Ret (Some ?A1) ?W1" by code_simp
  have a2: "readaco ?W1 = Ret (Some ?A2) ?W2" by code_simp
  have b1: "readaco (start ?S2) = Ret (Some ?A2) ?V1" by code_simp
  have b2: "readaco ?V1 = Ret None ?V1" by code_simp
  have c: "readaco (start []) = Ret None (start [])" by code_simp
  have ga: "bind (gengpl ?A2 (eprint ''Generating GPL...\<newline>'' ?W2))
              (\<lambda>_ w. Ret (0::int) (eprint ''Done.\<newline>'' w)) =
            Ret 0 \<lparr>stdin = [],
              stdout = ''GIMP Palette\<newline>Name: Untitled\<newline>Columns: 16\<newline>#\<newline>1 2 3 A '',
              stderr = ?e1 @ ?e2 @ ''Generating GPL...\<newline>Done.\<newline>'',
              heap = [], stale = 0, nulltext = ''(null)''\<rparr>"
    by code_simp
  have gb: "bind (gengpl ?A2 (eprint ''Generating GPL...\<newline>'' ?V1))
              (\<lambda>_ w. Ret (0::int) (eprint ''Done.\<newline>'' w)) =
            Ret 0 \<lparr>stdin = [],
              stdout = ''GIMP Palette\<newline>Name: Untitled\<newline>Columns: 16\<newline>#\<newline>1 2 3 A '',
              stderr = ?e2 @ ''Generating GPL...\<newline>Done.\<newline>'',
              heap = [], stale = 0, nulltext = ''(null)''\<rparr>"
    by code_simp
  from main_emits [OF a1 a2, of ?A2 ?A1] ga
  have "main ?W = Ret 0 \<lparr>stdin = [],
              stdout = ''GIMP Palette\<newline>Name: Untitled\<newline>Columns: 16\<newline>#\<newline>1 2 3 A '',
              stderr = ?e1 @ ?e2 @ ''Generating GPL...\<newline>Done.\<newline>'',
              heap = [], stale = 0, nulltext = ''(null)''\<rparr>"
    by simp
  moreover from main_emits [OF b1 b2, of ?A2 ?A2] gb
  have "main (start ?S2) = Ret 0 \<lparr>stdin = [],
              stdout = ''GIMP Palette\<newline>Name: Untitled\<newline>Columns: 16\<newline>#\<newline>1 2 3 A '',
              stderr = ?e2 @ ''Generating GPL...\<newline>Done.\<newline>'',
              heap = [], stale = 0, nulltext = ''(null)''\<rparr>"
    by simp
  moreover from main_emits [OF c c, of ?A2 ?A2]
  have "main (start []) = Ret 0 \<lparr>stdin = [], stdout = [],
      stderr = ''Generating GPL...\<newline>No data!Done.\<newline>'',
      heap = [], stale = 0, nulltext = ''(null)''\<rparr>"
    by (simp add: start_def eprint_def)
  ultimately show ?thesis by simp
qed

subsection \<open>Skipped records in the palette\<close>

text \<open>
  C1. The palette is to hold the declared count less the skipped records, its entries
  side by side. The code allocates \<open>count\<close> slots, sets \<open>len\<close> to \<open>count\<close>, and after a
  skipped record goes on with the next index: the slot of the skipped record is left
  as \<^verbatim>\<open>malloc\<close> returned it and \<open>len\<close> still counts it. On a version-1 file of two
  records, the first in colour space 1 and the second RGB, the palette has length 2,
  the RGB entry sits in slot 1 behind the unset slot 0, and the emitter stops at slot 0.
\<close>

theorem readaco_skipped_slot_kept:
  "readaco (start [0,1, 0,2, 0,1, 0,0, 0,0, 0,0, 0,0, 0,0, 255,0, 128,0, 0,0, 0,0]) =
     Ret (Some \<lparr>ver = 1, len = 2,
                color = [None, Some \<lparr>r = 255, g = 128, b = 0, name = None\<rparr>]\<rparr>)
       \<lparr>stdin = [], stdout = [],
        stderr = ''reading ACO stream version: 1 (photoshop < 7.0)\<newline>2 colors in this file\<newline>Non RGB color (colorspace 1) skipped\<newline>'',
        heap = [], stale = 0, nulltext = ''(null)''\<rparr> \<and>
   main (start [0,1, 0,2, 0,1, 0,0, 0,0, 0,0, 0,0, 0,0, 255,0, 128,0, 0,0, 0,0]) =
     Undefined
       \<lparr>stdin = [], stdout = ''GIMP Palette\<newline>Name: Untitled\<newline>Columns: 16\<newline>#'',
        stderr = ''reading ACO stream version: 1 (photoshop < 7.0)\<newline>2 colors in this file\<newline>Non RGB color (colorspace 1) skipped\<newline>Generating GPL...\<newline>'',
        heap = [], stale = 0, nulltext = ''(null)''\<rparr>"
  by code_simp

subsection \<open>Entries without a name\<close>

text \<open>
  C3. An entry without a name is to be written as the three numbers, a space and
  nothing more. The code hands the null pointer of such an entry to \<^verbatim>\<open>%s\<close>: the line
  ends with whatever the C library writes for a null pointer, which is the text
  \<^verbatim>\<open>(null)\<close> with the GNU C library. A version-1 file with the single colour
  \<open>(0xFF00, 0x8000, 0)\<close> gives the line \<^verbatim>\<open>255 128 0 (null)\<close>.
\<close>

theorem gengpl_null_name:
  "gengpl \<lparr>ver = 1, len = 1, color = [Some \<lparr>r = 255, g = 128, b = 0, name = None\<rparr>]\<rparr> w =
     Ret () (print (header @ ''\<newline>255 128 0 '' @ nulltext w) w) \<and>
   main (start [0,1, 0,1, 0,0, 255,0, 128,0, 0,0, 0,0]) =
     Ret 0
       \<lparr>stdin = [],
        stdout = ''GIMP Palette\<newline>Name: Untitled\<newline>Columns: 16\<newline>#\<newline>255 128 0 (null)'',
        stderr = ''reading ACO stream version: 1 (photoshop < 7.0)\<newline>1 colors in this file\<newline>Generating GPL...\<newline>Done.\<newline>'',
        heap = [], stale = 0, nulltext = ''(null)''\<rparr>"
proof -
  let ?e = "\<lparr>r = 255, g = 128, b = 0, name = None\<rparr>"
  let ?a = "\<lparr>ver = 1, len = 1, color = [Some ?e]\<rparr>"
  have line: "colorline w ?e = ''\<newline>255 128 0 '' @ nulltext w"
    by (simp add: colorline_def fmt_s_def fmt_d_def dec.simps digit_def)
  have "gengpl ?a w = Ret () (print (header @ concat (map (colorline w) [?e])) w)"
    using emit_range_entries [of ?a "[?e]" 0 1 "print header w"]
    by (simp add: gengpl_def gengpl_rows_emit_range)
  then have "gengpl ?a w = Ret () (print (header @ ''\<newline>255 128 0 '' @ nulltext w) w)"
    by (simp add: line)
  moreover have "main (start [0,1, 0,1, 0,0, 255,0, 128,0, 0,0, 0,0]) =
     Ret 0
       \<lparr>stdin = [],
        stdout = ''GIMP Palette\<newline>Name: Untitled\<newline>Columns: 16\<newline>#\<newline>255 128 0 (null)'',
        stderr = ''reading ACO stream version: 1 (photoshop < 7.0)\<newline>1 colors in this file\<newline>Generating GPL...\<newline>Done.\<newline>'',
        heap = [], stale = 0, nulltext = ''(null)''\<rparr>"
    by code_simp
  ultimately show ?thesis by blast
qed

subsection \<open>Exit statuses\<close>

lemma fatal_exit_Ret [simp]: "fatal_exit (Ret x w)"
  by (simp add: fatal_exit_def)

lemma fatal_exit_Undefined [simp]: "fatal_exit (Undefined w)"
  by (simp add: fatal_exit_def)

lemma fatal_exit_bind:
  "fatal_exit m \<Longrightarrow> (\<And>x w. fatal_exit (f x w)) \<Longrightarrow> fatal_exit (bind m f)"
  by (cases m) (simp_all add: fatal_exit_def)

lemma stderr_eprint [simp]: "stderr (eprint s w) = stderr w @ s"
  by (simp add: eprint_def)

lemma fatal_text_oom: "fatal_text (s @ ''Out of memory!\<newline>'')"
  unfolding fatal_text_def by (intro disjI1 suffixI) (rule refl)

lemma fatal_text_eof: "fatal_text (s @ ''Unexpected end of file!\<newline>'')"
  unfolding fatal_text_def by (intro disjI2 disjI1 suffixI) (rule refl)

lemma fatal_text_version:
  "v \<noteq> 1 \<Longrightarrow> v \<noteq> 2 \<Longrightarrow>
   fatal_text (s @ ''Unknown ACO file version '' @ fmt_d v @ ''. Exiting...\<newline>'')"
  unfolding fatal_text_def by (intro disjI2 exI [of _ v] conjI suffixI) auto

lemma fatal_exit_Exit: "fatal_text (stderr w) \<Longrightarrow> fatal_exit (Exit 1 w)"
  by (simp add: fatal_exit_def)

lemma fatal_exit_mustreadword: "fatal_exit (mustreadword w)"
  by (auto simp: mustreadword_def split: prod.splits intro!: fatal_exit_Exit fatal_text_eof)

lemma fatal_exit_acomalloc: "fatal_exit (acomalloc n w)"
  by (auto simp: acomalloc_def split: prod.splits intro!: fatal_exit_Exit fatal_text_oom)

lemma fatal_exit_skipwords: "fatal_exit (skipwords j n w)"
proof (induction j n w rule: skipwords.induct)
  case (1 j n w)
  show ?case
  proof (cases "j < n")
    case True
    then show ?thesis
      by (simp add: skipwords_step) (intro fatal_exit_bind fatal_exit_mustreadword "1.IH")
  next
    case False
    then show ?thesis by (simp add: skipwords_done)
  qed
qed

lemma fatal_exit_readname: "fatal_exit (readname namelen buf buflen w)"
proof (induction "nat namelen" arbitrary: namelen buf buflen w)
  case 0
  then show ?case by (simp add: readname_done)
next
  case (Suc k)
  then have pos: "0 < namelen" and k: "k = nat (namelen - 1)" by simp_all
  have "fatal_exit (readname (namelen - 1) b l w')" for b l w'
    using k by (rule Suc.hyps(1))
  then show ?case
    by (simp add: readname_step [OF pos]) (intro fatal_exit_bind fatal_exit_mustreadword, simp)
qed

lemma fatal_exit_convertcolor: "fatal_exit (convertcolor version buflen w)"
  unfolding convertcolor_def
  by (intro fatal_exit_bind fatal_exit_mustreadword)
     (auto intro!: fatal_exit_bind fatal_exit_mustreadword fatal_exit_skipwords
        fatal_exit_readname)


lemma fatal_exit_readaco_loop: "fatal_exit (readaco_loop version colors j a w)"
proof (induction "nat (colors - j)" arbitrary: j a w)
  case 0
  then show ?case by (simp add: readaco_loop_done)
next
  case (Suc k)
  then have lt: "j < colors" and k: "k = nat (colors - (j + 1))" by simp_all
  have ih: "fatal_exit (readaco_loop version colors (j + 1) a' w')" for a' w'
    using k by (rule Suc.hyps(1))
  show ?case
    unfolding readaco_loop_step [OF lt]
    by (intro fatal_exit_bind fatal_exit_convertcolor)
       (use ih in \<open>auto split: conv.splits option.splits prod.splits\<close>)
qed

lemma fatal_exit_readaco: "fatal_exit (readaco w)"
proof -
  obtain x w1 where rd: "readword w = (x, w1)" by (cases "readword w")
  show ?thesis
  proof (cases "x = 1 \<or> x = 2")
    case True
    let ?w = "eprint (if x = 1 then '' 1 (photoshop < 7.0)\<newline>''
        else '' 2 (photoshop >= 7.0)\<newline>'') (eprint ''reading ACO stream version:'' w1)"
    obtain c w2 where rc: "readword ?w = (c, w2)" by (cases "readword ?w")
    have "readaco w = bind (acomalloc sizeof_aco
            (eprint (fmt_d c @ '' colors in this file\<newline>'') w2))
        (\<lambda>_ w. bind (acomalloc (sizeof_acoentry * word_of_int c) w) (\<lambda>_ w.
           bind (readaco_loop x c 0 \<lparr>ver = x, len = c, color = replicate (nat c) None\<rparr> w)
             (\<lambda>a w. Ret (Some a) w)))"
      using True rd rc by (auto simp: readaco_alt Let_def simp del: bind.simps)
    then show ?thesis
      by (simp only:)
         (intro fatal_exit_bind fatal_exit_acomalloc fatal_exit_readaco_loop fatal_exit_Ret)
  next
    case False
    have "fatal_text (stderr w1 @ ''reading ACO stream version:'' @
        ''Unknown ACO file version '' @ fmt_d x @ ''. Exiting...\<newline>'')"
      using False fatal_text_version [of x "stderr w1 @ ''reading ACO stream version:''"]
      by simp
    with False rd show ?thesis
      by (simp add: readaco_alt Let_def fatal_exit_def)
  qed
qed

lemma fatal_exit_emit_range: "fatal_exit (emit_range a k hi w)"
proof (induction "nat (hi - k)" arbitrary: k w)
  case 0
  then show ?case by (simp add: emit_range_done)
next
  case (Suc n)
  then have lt: "k < hi" and n: "n = nat (hi - (k + 1))" by simp_all
  have "fatal_exit (emit_range a (k + 1) hi w')" for w'
    using n by (rule Suc.hyps(1))
  then show ?case
    by (simp add: emit_range_step [OF lt] split: option.splits)
qed

lemma fatal_exit_gengpl: "fatal_exit (gengpl a w)"
  by (simp add: gengpl_def gengpl_rows_emit_range fatal_exit_emit_range)



lemma main_status_Exit:
  assumes "main w = Exit st w'"
  shows "st = 1 \<and> fatal_text (stderr w')"
proof -
  have "fatal_exit (main w)"
    unfolding main_def Let_def
    by (intro fatal_exit_bind fatal_exit_readaco)
       (auto intro!: fatal_exit_bind fatal_exit_gengpl split: option.splits)
  with assms show ?thesis by (simp add: fatal_exit_def)
qed

subsection \<open>The fatal conditions, program-wide\<close>


lemma exits_after_eof: "exits_after UnexpectedEnd (Exit 1 (eprint ''Unexpected end of file!\<newline>'' w))"
  by (simp add: exits_after_def diagnostic_def suffix_def)




lemma skipwords_enough:
  assumes "nat (n - j) \<le> length ws"
  shows "skipwords j n (w\<lparr>stdin := be16s ws\<rparr>) =
         Ret () (w\<lparr>stdin := be16s (drop (nat (n - j)) ws)\<rparr>)"
proof (cases "j \<le> n")
  case True
  let ?k = "nat (n - j)"
  have "skipwords j n (w\<lparr>stdin := be16s (take ?k ws) @ be16s (drop ?k ws)\<rparr>) =
        Ret () (w\<lparr>stdin := be16s (drop ?k ws)\<rparr>)"
    using True assms by (intro skipwords_upd) simp
  moreover have "be16s (take ?k ws) @ be16s (drop ?k ws) = be16s ws"
    by (simp flip: be16s_append)
  ultimately show ?thesis by simp
next
  case False
  then show ?thesis by (simp add: skipwords_done)
qed




lemma exits_after_bind_eof:
  "exits_after UnexpectedEnd
     (bind (Exit 1 (eprint ''Unexpected end of file!\<newline>'' w)) k)"
  by (simp add: exits_after_eof)



lemma skip4_enough:
  "skipwords 0 4 (w\<lparr>stdin := be16s (a1 # a2 # a3 # a4 # rest)\<rparr>) =
     Ret () (w\<lparr>stdin := be16s rest\<rparr>)"
  using skipwords_enough [of 4 0 "a1 # a2 # a3 # a4 # rest" w] by simp

























end
